theory Spec2Isabelle
  imports Complex_Main "HOL-Library.Char_ord" "HOL-Library.List_Lexorder" "HOL-Library.AList"
begin

section \<open>Python strings\<close>

text \<open>
  Strings are lists of 8-bit characters. The registry codes, separators and error
  messages the program looks at are ASCII; a character above 127 is left as it is by
  \<open>upper\<close> and \<open>lower\<close> and is never white space.
\<close>

definition is_space :: "char \<Rightarrow> bool" where
  \<comment> \<open>\<open>str.isspace\<close> on ASCII: TAB, LF, VT, FF, CR, FS, GS, RS, US and the blank.\<close>
  "is_space c = (of_char c \<in> {9, 10, 11, 12, 13, 28, 29, 30, 31, 32 :: nat})"

definition strip :: "string \<Rightarrow> string" where
  "strip s = rev (dropWhile is_space (rev (dropWhile is_space s)))"

definition upper_char :: "char \<Rightarrow> char" where
  "upper_char c =
     (let n = of_char c :: nat in if 97 \<le> n \<and> n \<le> 122 then char_of (n - 32) else c)"

definition upper :: "string \<Rightarrow> string" where
  "upper s = map upper_char s"

definition lower_char :: "char \<Rightarrow> char" where
  "lower_char c =
     (let n = of_char c :: nat in if 65 \<le> n \<and> n \<le> 90 then char_of (n + 32) else c)"

definition lower :: "string \<Rightarrow> string" where
  "lower s = map lower_char s"

fun contains :: "string \<Rightarrow> string \<Rightarrow> bool" where
  \<comment> \<open>\<open>sub in s\<close> for two strings.\<close>
  "contains sub [] = (sub = [])"
| "contains sub (x # xs) = (take (length sub) (x # xs) = sub \<or> contains sub xs)"

definition truthy :: "string option \<Rightarrow> bool" where
  \<comment> \<open>The truth value of an \<open>Optional[str]\<close>: neither \<open>None\<close> nor the empty string.\<close>
  "truthy v = (case v of None \<Rightarrow> False | Some s \<Rightarrow> s \<noteq> [])"

section \<open>clientcase\_matcher.py\<close>

datatype match_status = Exact | Fuzzy_io_swap | Ambiguous_io_swap | Unknown

datatype contamination_flag_t = Cont_none | I_only | O_only | I_and_O

record MatchResult =
  original_code :: string
  matched_code :: "string option"
  match_status :: match_status
  match_confidence :: real
  contamination :: contamination_flag_t
  candidates :: "string list"
  notes_r :: "string option"

record ClientCaseMatcher =
  valid_codes :: "string set"
  index_by_canon :: "string \<rightharpoonup> string list"

definition swap_io :: "char \<Rightarrow> char" where
  "swap_io ch = (if ch = CHR ''I'' then CHR ''1'' else if ch = CHR ''O'' then CHR ''0'' else ch)"

fun fix_positions :: "nat list \<Rightarrow> string \<Rightarrow> string" where
  \<comment> \<open>The loop over \<open>letter_positions\<close>, with its guard \<open>pos < len(chars)\<close>.\<close>
  "fix_positions [] chars = chars"
| "fix_positions (pos # ps) chars =
     fix_positions ps (if pos < length chars then chars[pos := swap_io (chars ! pos)] else chars)"

definition letter_positions :: "nat list" where
  "letter_positions = [0, 1, 5]"

definition canonical_case_number :: "string \<Rightarrow> string" where
  "canonical_case_number code =
     (let c = upper (strip code) in
      if length c < 11 then c else fix_positions letter_positions c)"

definition contamination_flag :: "string \<Rightarrow> contamination_flag_t" where
  "contamination_flag code =
     (let c = upper code; has_i = CHR ''I'' \<in> set c; has_o = CHR ''O'' \<in> set c in
      if \<not> has_i \<and> \<not> has_o then Cont_none
      else if has_i \<and> has_o then I_and_O
      else if has_i then I_only
      else O_only)"

text \<open>
  The registry file. \<open>None\<close> is a path that does not exist; \<open>No_columns\<close> a file
  without a header row; \<open>Column cells\<close> holds, row by row, the cell \<open>row.get(col)\<close> of
  the column \<open>clientCaseNumber\<close> (or of the first column when the header lacks it).
\<close>

datatype csv_table = No_columns | Column "string option list"

datatype load_error = FileNotFoundError | ValueError

definition index_code :: "string option \<Rightarrow> ClientCaseMatcher \<Rightarrow> ClientCaseMatcher" where
  \<comment> \<open>The body of the loop over the rows in \<open>_load_index\<close>.\<close>
  "index_code cell m =
     (let code = strip (case cell of None \<Rightarrow> [] | Some v \<Rightarrow> v) in
      if code = [] then m
      else
        let canon = canonical_case_number code in
        m\<lparr>valid_codes := insert code (valid_codes m),
          index_by_canon := (index_by_canon m)
            (canon \<mapsto> (case index_by_canon m canon of None \<Rightarrow> [] | Some l \<Rightarrow> l) @ [code])\<rparr>)"

definition load_index :: "csv_table option \<Rightarrow> load_error + ClientCaseMatcher" where
  "load_index file =
     (case file of
        None \<Rightarrow> Inl FileNotFoundError
      | Some No_columns \<Rightarrow> Inl ValueError
      | Some (Column cells) \<Rightarrow>
          Inr (fold index_code cells \<lparr>valid_codes = {}, index_by_canon = Map.empty\<rparr>))"

definition match :: "ClientCaseMatcher \<Rightarrow> string \<Rightarrow> MatchResult" where
  "match m code =
     (let original = strip code in
      if original = [] then
        \<lparr>original_code = original, matched_code = None, match_status = Unknown,
         match_confidence = 0, contamination = Cont_none, candidates = [],
         notes_r = Some ''Empty or whitespace-only clientCaseNumber''\<rparr>
      else if original \<in> valid_codes m then
        \<lparr>original_code = original, matched_code = Some original, match_status = Exact,
         match_confidence = 1, contamination = contamination_flag original,
         candidates = [original], notes_r = None\<rparr>
      else
        let canon = canonical_case_number original;
            cands = (case index_by_canon m canon of None \<Rightarrow> [] | Some l \<Rightarrow> l)
        in
          (case cands of
             [] \<Rightarrow>
               \<lparr>original_code = original, matched_code = None, match_status = Unknown,
                match_confidence = 0, contamination = contamination_flag original,
                candidates = [], notes_r = Some ''clientCaseNumber is not registered''\<rparr>
           | [matched] \<Rightarrow>
               \<lparr>original_code = original, matched_code = Some matched,
                match_status = Fuzzy_io_swap, match_confidence = 75 / 100,
                contamination = contamination_flag matched, candidates = cands,
                notes_r = Some ''Matched via I/1 or O/0 canonical mapping''\<rparr>
           | _ \<Rightarrow>
               \<lparr>original_code = original, matched_code = None,
                match_status = Ambiguous_io_swap, match_confidence = 3 / 10,
                contamination = Cont_none, candidates = cands,
                notes_r = Some ''Multiple possible matches for canonical form''\<rparr>))"

section \<open>universal\_invoice\_processor.py\<close>

datatype verdict_t = Accept | Needs_review | Reject

text \<open>
  The reason texts of the verdict, by name: \<open>No_ccn_found\<close> is "No clientCaseNumbers
  found; likely not a coaching invoice", \<open>Unknown_or_ambiguous\<close> the text asking the
  sender to update the invoice, \<open>Historical_swap\<close> the text about the 1/I and 0/O
  swaps, \<open>All_exact\<close> "All clientCaseNumbers are known and match exactly".
\<close>

datatype verdict_reason = No_ccn_found | Unknown_or_ambiguous | Historical_swap | All_exact

record match_info =
  matchedCode :: "string option"
  matchStatus :: match_status
  matchConfidence :: real
  contamination' :: contamination_flag_t
  candidates' :: "string list"
  notes' :: "string option"

record verdict_summary =
  verdict :: verdict_t
  reason :: verdict_reason
  counts :: "match_status \<Rightarrow> nat"

text \<open>
  \<open>UniversalInvoiceData\<close>, with the two entries of the dictionary \<open>patterns_found\<close>
  that the pre-processor adds as optional fields (\<open>None\<close>: the key is absent). A
  dictionary keeps its keys in insertion order, so \<open>client_case_matches\<close> is an
  association list.
\<close>

record UniversalInvoiceData =
  extracted_text :: string
  client_case_numbers :: "string list"
  text_length :: nat
  is_coaching_invoice :: bool
  client_case_matches :: "(string \<times> match_info) list option"
  client_case_summary :: "verdict_summary option"


definition match_info_of :: "MatchResult \<Rightarrow> match_info" where
  "match_info_of r =
     \<lparr>matchedCode = matched_code r, matchStatus = match_status r,
      matchConfidence = match_confidence r, contamination' = contamination r,
      candidates' = candidates r, notes' = notes_r r\<rparr>"

definition annotate_client_cases ::
  "ClientCaseMatcher option \<Rightarrow> UniversalInvoiceData \<Rightarrow> UniversalInvoiceData" where
  "annotate_client_cases matcher invoice_data =
     (case matcher of
        None \<Rightarrow> invoice_data
      | Some m \<Rightarrow>
          if client_case_numbers invoice_data = [] then invoice_data
          else invoice_data\<lparr>client_case_matches :=
            Some (fold (\<lambda>code info. AList.update code (match_info_of (match m code)) info)
                    (client_case_numbers invoice_data) [])\<rparr>)"

definition count_statuses :: "(string \<times> match_info) list \<Rightarrow> match_status \<Rightarrow> nat" where
  \<comment> \<open>The loop filling \<open>counts\<close>, every status starting at 0.\<close>
  "count_statuses matches =
     fold (\<lambda>(code, info) cnt. cnt(matchStatus info := cnt (matchStatus info) + 1))
       matches (\<lambda>status. 0)"

definition evaluate_client_case_verdict :: "UniversalInvoiceData \<Rightarrow> verdict_summary" where
  "evaluate_client_case_verdict invoice_data =
     (let matches = (case client_case_matches invoice_data of None \<Rightarrow> [] | Some ms \<Rightarrow> ms) in
      if matches = [] then
        \<lparr>verdict = Reject, reason = No_ccn_found, counts = (\<lambda>status. 0)\<rparr>
      else
        let cnt = count_statuses matches in
        if cnt Unknown > 0 \<or> cnt Ambiguous_io_swap > 0 then
          \<lparr>verdict = Reject, reason = Unknown_or_ambiguous, counts = cnt\<rparr>
        else if cnt Fuzzy_io_swap > 0 then
          \<lparr>verdict = Needs_review, reason = Historical_swap, counts = cnt\<rparr>
        else \<lparr>verdict = Accept, reason = All_exact, counts = cnt\<rparr>)"

definition extractor_process_invoice ::
  "ClientCaseMatcher option \<Rightarrow> (string \<Rightarrow> string list) \<Rightarrow> string \<Rightarrow> UniversalInvoiceData" where
  \<comment> \<open>\<open>UniversalInvoiceExtractor.process_invoice\<close> from the extracted text on;
      \<open>find_client_cases\<close> is the entry \<open>client_cases\<close> of \<open>find_patterns\<close>.\<close>
  "extractor_process_invoice matcher find_client_cases text =
     (let invoice_data =
            \<lparr>extracted_text = text,
             client_case_numbers = (if text = [] then [] else find_client_cases text),
             text_length = length text, is_coaching_invoice = False,
             client_case_matches = None, client_case_summary = None\<rparr>;
          annotated = annotate_client_cases matcher invoice_data;
          summary = evaluate_client_case_verdict annotated
      in annotated\<lparr>client_case_summary := Some summary,
                    is_coaching_invoice := (client_case_numbers annotated \<noteq> [])\<rparr>)"

definition manifest_verdict :: "UniversalInvoiceData \<Rightarrow> verdict_t" where
  \<comment> \<open>\<open>save_results\<close>: \<open>client_case_summary.get("verdict", "accept")\<close>.\<close>
  "manifest_verdict invoice_data =
     (case client_case_summary invoice_data of None \<Rightarrow> Accept | Some s \<Rightarrow> verdict s)"


section \<open>regex\_tools.py: amounts\<close>














section \<open>llm\_models.py\<close>

text \<open>
  Modelled from the spec: the module \<open>llm_models\<close> with the classes \<open>ClientCase\<close>,
  \<open>InvoiceHeader\<close> and \<open>InvoiceLLMResult\<close> is missing from the sources. The final record
  of the specification gives the fields: a header of five optional strings, and client
  cases with a validated code, an optional raw code, an optional date and an optional
  number of hours. The validated code is optional here too, since the post-processing
  tests it for \<open>None\<close> and for the empty string alike. The hours are a real number, of
  which the program only asks whether it is zero.
\<close>

record ClientCase =
  validatedClientCaseNumber :: "string option"
  rawClientCaseNumber :: "string option"
  date :: "string option"
  durationHours :: "real option"

record InvoiceHeader =
  supplierName :: "string option"
  invoiceNumber :: "string option"
  invoiceDate :: "string option"
  kvkNumber :: "string option"
  vatNumber :: "string option"

record LineItemsResult =
  clientCases :: "ClientCase list"
  clientCasesNoActivity :: "string list"

record InvoiceLLMResult = LineItemsResult +
  invoiceHeader :: InvoiceHeader
  isCoachingInvoice :: bool

text \<open>
  \<open>HeaderResult\<close> of capstone\_agents.py has the two fields \<open>invoiceHeader\<close> and
  \<open>isCoachingInvoice\<close>; they carry a prime here, the plain names being those of
  \<open>InvoiceLLMResult\<close>.
\<close>

record HeaderResult =
  invoiceHeader' :: InvoiceHeader
  isCoachingInvoice' :: bool

section \<open>utils.py\<close>

definition sorted_set :: "string set \<Rightarrow> string list" where
  \<comment> \<open>\<open>sorted(list(s))\<close> for a set of strings.\<close>
  "sorted_set s = sorted_list_of_set s"

definition correct_case :: "(string \<rightharpoonup> string) \<Rightarrow> ClientCase \<Rightarrow> ClientCase" where
  \<comment> \<open>The body of the loop over \<open>result.clientCases\<close> in
      \<open>apply_client_case_corrections\<close>.\<close>
  "correct_case correction_map c =
     (case validatedClientCaseNumber c of
        None \<Rightarrow> c
      | Some raw_code \<Rightarrow>
          (case correction_map raw_code of
             None \<Rightarrow> c
           | Some corrected_code \<Rightarrow>
               if raw_code \<noteq> corrected_code then
                 c\<lparr>rawClientCaseNumber := Some raw_code,
                   validatedClientCaseNumber := Some corrected_code\<rparr>
               else c))"

definition apply_client_case_corrections ::
  "InvoiceLLMResult \<Rightarrow> (string \<rightharpoonup> string) \<Rightarrow> InvoiceLLMResult" where
  "apply_client_case_corrections result correction_map =
     (let fixed_no_activity =
            map (\<lambda>code. case correction_map code of Some v \<Rightarrow> v | None \<Rightarrow> code)
              (clientCasesNoActivity result)
      in result\<lparr>clientCases := map (correct_case correction_map) (clientCases result),
                clientCasesNoActivity := sorted_set (set fixed_no_activity)\<rparr>)"

definition in_allowed :: "string list \<Rightarrow> string option \<Rightarrow> bool" where
  \<comment> \<open>\<open>code in allowed_set\<close>; \<open>None\<close> is in no list of strings.\<close>
  "in_allowed allowed code = (case code of None \<Rightarrow> False | Some s \<Rightarrow> s \<in> set allowed)"

definition enforce_allowed_client_cases ::
  "InvoiceLLMResult \<Rightarrow> string list \<Rightarrow> InvoiceLLMResult" where
  "enforce_allowed_client_cases result allowed =
     (let filtered_active =
            filter (\<lambda>c. in_allowed allowed (validatedClientCaseNumber c)) (clientCases result);
          filtered_no_activity =
            filter (\<lambda>code. code \<in> set allowed) (clientCasesNoActivity result)
      in result\<lparr>clientCases := filtered_active,
                clientCasesNoActivity := sorted_set (set filtered_no_activity)\<rparr>)"

section \<open>capstone\_agents.py\<close>

text \<open>
  One attempt of \<open>_run_agent\<close> is the body of its \<open>try\<close>: the call of the runner, the
  decoding of the last message, the stripping of the fences and the validation against
  the schema. It returns a validated result or raises an exception with a message.
  The agent is the function from the number of the attempt to that outcome.
\<close>

datatype 'r attempt = Raises string | Returns 'r

record 'r agent_run =
  outcome :: "'r option"
  sleeps :: "nat list"
  calls :: nat

definition is_overload :: "string \<Rightarrow> bool" where
  "is_overload e =
     (let error_msg = lower e in
      contains ''503'' error_msg \<or> contains ''overloaded'' error_msg
      \<or> contains ''429'' error_msg \<or> contains ''unavailable'' error_msg)"

function run_agent_loop ::
  "(nat \<Rightarrow> 'r attempt) \<Rightarrow> nat \<Rightarrow> nat \<Rightarrow> nat list \<Rightarrow> 'r agent_run" where
  \<comment> \<open>The \<open>for\<close> loop from \<open>attempt\<close> on; \<open>slept\<close> are the waits so far, in seconds.\<close>
  "run_agent_loop agent max_retries attempt slept =
     (if attempt < max_retries + 1 then
        (case agent attempt of
           Returns r \<Rightarrow> \<lparr>outcome = Some r, sleeps = slept, calls = attempt + 1\<rparr>
         | Raises e \<Rightarrow>
             if is_overload e \<and> attempt < max_retries then
               run_agent_loop agent max_retries (attempt + 1) (slept @ [2 * 2 ^ attempt])
             else if \<not> is_overload e then
               \<lparr>outcome = None, sleeps = slept, calls = attempt + 1\<rparr>
             else run_agent_loop agent max_retries (attempt + 1) slept)
      else \<lparr>outcome = None, sleeps = slept, calls = attempt\<rparr>)"
  by pat_completeness auto
termination
  by (relation "measure (\<lambda>(agent, max_retries, attempt, slept). max_retries + 1 - attempt)") auto

definition run_agent :: "(nat \<Rightarrow> 'r attempt) \<Rightarrow> nat \<Rightarrow> 'r agent_run" where
  "run_agent agent max_retries = run_agent_loop agent max_retries 0 []"

definition default_max_retries :: nat where
  "default_max_retries = 3"

definition post_process_line_items :: "LineItemsResult \<Rightarrow> LineItemsResult" where
  "post_process_line_items lines_result =
     (let (cleaned_active, no_activity_set) =
            fold (\<lambda>c (active, no_activity).
                    if durationHours c = None \<or> durationHours c = Some 0 then
                      (case validatedClientCaseNumber c of
                         None \<Rightarrow> (active, no_activity)
                       | Some code \<Rightarrow>
                           if code \<noteq> [] then (active, insert code no_activity)
                           else (active, no_activity))
                    else (active @ [c], no_activity))
              (clientCases lines_result) ([], set (clientCasesNoActivity lines_result))
      in lines_result\<lparr>clientCases := cleaned_active,
                      clientCasesNoActivity := sorted_set no_activity_set\<rparr>)"

text \<open>
  The dictionary \<open>invoice_data\<close> that the orchestrator receives (\<open>None\<close>: the key is
  absent), and what lies outside the program during one call: the three agents, the
  source PDF, the OCR service and the regular expressions of \<open>extract_header_fields\<close>.
\<close>

record invoice_context =
  allowed_client_cases :: "string list option"
  allowed_client_cases_prompt :: "string list option"
  allowed_client_cases_valid :: "string list option"
  correction_map :: "(string \<rightharpoonup> string) option"

record header_fields =
  regex_kvkNumber :: "string option"
  regex_vatNumber :: "string option"
  regex_invoiceNumber :: "string option"

record environment =
  header_agent :: "nat \<Rightarrow> HeaderResult attempt"
  lines_agent :: "nat \<Rightarrow> LineItemsResult attempt"
  ocr_header_agent :: "nat \<Rightarrow> HeaderResult attempt"
  pdf_exists :: bool
  run_pdf_ocr_google :: string
  extract_header_fields :: "string \<Rightarrow> header_fields"

definition valid_allowed_cases :: "invoice_context \<Rightarrow> string list" where
  "valid_allowed_cases invoice_data =
     (let default_allowed =
            (case allowed_client_cases invoice_data of None \<Rightarrow> [] | Some l \<Rightarrow> l)
      in case allowed_client_cases_valid invoice_data of
           None \<Rightarrow> default_allowed
         | Some l \<Rightarrow> l)"

definition tier1 :: "header_fields \<Rightarrow> InvoiceHeader \<Rightarrow> InvoiceHeader" where
  "tier1 regex_data h =
     (let h1 = (if truthy (regex_kvkNumber regex_data) \<and> \<not> truthy (kvkNumber h)
                then h\<lparr>kvkNumber := regex_kvkNumber regex_data\<rparr> else h)
      in if truthy (regex_vatNumber regex_data) \<and> \<not> truthy (vatNumber h1)
         then h1\<lparr>vatNumber := regex_vatNumber regex_data\<rparr> else h1)"

definition tier2 :: "(nat \<Rightarrow> HeaderResult attempt) \<Rightarrow> InvoiceHeader \<Rightarrow> InvoiceHeader" where
  "tier2 agent h =
     (let missing_kvk = \<not> truthy (kvkNumber h); missing_vat = \<not> truthy (vatNumber h) in
      if missing_kvk \<or> missing_vat then
        (case outcome (run_agent agent default_max_retries) of
           None \<Rightarrow> h
         | Some new_header_res \<Rightarrow>
             let new_header = invoiceHeader' new_header_res;
                 h1 = (if truthy (kvkNumber new_header)
                       then h\<lparr>kvkNumber := kvkNumber new_header\<rparr> else h)
             in if truthy (vatNumber new_header)
                then h1\<lparr>vatNumber := vatNumber new_header\<rparr> else h1)
      else h)"

definition self_correction :: "environment \<Rightarrow> InvoiceHeader \<Rightarrow> InvoiceHeader" where
  "self_correction env h =
     (if \<not> truthy (kvkNumber h) \<or> \<not> truthy (vatNumber h) then
        if pdf_exists env then
          (let ocr_text = run_pdf_ocr_google env in
           if ocr_text \<noteq> [] then
             tier2 (ocr_header_agent env) (tier1 (extract_header_fields env ocr_text) h)
           else h)
        else h
      else h)"

definition corrected_result :: "environment \<Rightarrow> invoice_context \<Rightarrow> InvoiceLLMResult" where
  \<comment> \<open>\<open>InvoiceOrchestrator.process_invoice\<close> up to and with the call of
      \<open>apply_client_case_corrections\<close>.\<close>
  "corrected_result env invoice_data =
     (let header_res =
            (case outcome (run_agent (header_agent env) default_max_retries) of
               None \<Rightarrow>
                 \<lparr>invoiceHeader' =
                    \<lparr>supplierName = None, invoiceNumber = None, invoiceDate = None,
                     kvkNumber = None, vatNumber = None\<rparr>,
                  isCoachingInvoice' = False\<rparr>
             | Some r \<Rightarrow> r);
          header = self_correction env (invoiceHeader' header_res);
          lines_res =
            (case outcome (run_agent (lines_agent env) default_max_retries) of
               None \<Rightarrow> \<lparr>clientCases = [], clientCasesNoActivity = []\<rparr>
             | Some r \<Rightarrow> post_process_line_items r);
          final_result =
            \<lparr>clientCases = clientCases lines_res,
             clientCasesNoActivity = clientCasesNoActivity lines_res,
             invoiceHeader = header,
             isCoachingInvoice = isCoachingInvoice' header_res\<rparr>
      in apply_client_case_corrections final_result
           (case correction_map invoice_data of None \<Rightarrow> Map.empty | Some m \<Rightarrow> m))"

definition orchestrator_process_invoice ::
  "environment \<Rightarrow> invoice_context \<Rightarrow> InvoiceLLMResult" where
  \<comment> \<open>\<open>InvoiceOrchestrator.process_invoice\<close>; every path returns \<open>final_result\<close>.\<close>
  "orchestrator_process_invoice env invoice_data =
     enforce_allowed_client_cases (corrected_result env invoice_data)
       (valid_allowed_cases invoice_data)"

section \<open>Notions of the specification\<close>

definition verdict_rule :: "(string \<times> match_info) list \<Rightarrow> verdict_t" where
  \<comment> \<open>The ordered verdict rule, in the words of the specification.\<close>
  "verdict_rule matches =
     (if matches = [] then Reject
      else if \<exists>(code, info) \<in> set matches.
                matchStatus info = Unknown \<or> matchStatus info = Ambiguous_io_swap
        then Reject
      else if \<exists>(code, info) \<in> set matches. matchStatus info = Fuzzy_io_swap
        then Needs_review
      else Accept)"

definition matches_of :: "UniversalInvoiceData \<Rightarrow> (string \<times> match_info) list" where
  \<comment> \<open>The CCN matches of a pre-processed invoice; none when the key is absent.\<close>
  "matches_of invoice_data =
     (case client_case_matches invoice_data of None \<Rightarrow> [] | Some ms \<Rightarrow> ms)"

definition no_hours :: "ClientCase \<Rightarrow> bool" where
  \<comment> \<open>A line whose \<open>durationHours\<close> is null or 0.\<close>
  "no_hours c = (durationHours c = None \<or> durationHours c = Some 0)"

definition drained_codes :: "ClientCase list \<Rightarrow> string set" where
  \<comment> \<open>The validated codes, not empty, of the lines without hours.\<close>
  "drained_codes cs =
     {code. code \<noteq> [] \<and> (\<exists>c \<in> set cs. no_hours c \<and> validatedClientCaseNumber c = Some code)}"



section \<open>Example inputs\<close>

text \<open>
  Two registries: the one of scenario S1, and one in which two codes share a canonical
  form. Then a pre-processor whose patterns find one code in every text.
\<close>

definition registry_s1 :: csv_table where
  "registry_s1 = Column [Some ''JN16-I21-284'', Some ''JN16-I21-285'']"

definition registry_twins :: csv_table where
  "registry_twins = Column [Some ''IO12-A34-567'', Some ''1O12-A34-567'']"

definition matcher_of :: "csv_table \<Rightarrow> ClientCaseMatcher" where
  "matcher_of t =
     (case load_index (Some t) of
        Inr m \<Rightarrow> m
      | Inl e \<Rightarrow> \<lparr>valid_codes = {}, index_by_canon = Map.empty\<rparr>)"

definition find_one_code :: "string \<Rightarrow> string list" where
  "find_one_code text = [''JN16-121-284'']"

text \<open>
  An invoice context that allows the two codes of scenario S1, and agents that answer at
  the first attempt: a header without numbers or with a KvK number only, and line
  items with hours that are negative, zero or positive.
\<close>

definition context_s1 :: invoice_context where
  "context_s1 =
     \<lparr>allowed_client_cases = None,
      allowed_client_cases_prompt = Some [''JN16-121-284'', ''JN16-I21-285''],
      allowed_client_cases_valid = Some [''JN16-I21-284'', ''JN16-I21-285''],
      correction_map =
        Some [''JN16-121-284'' \<mapsto> ''JN16-I21-284'', ''JN16-I21-285'' \<mapsto> ''JN16-I21-285'']\<rparr>"

definition line :: "string \<Rightarrow> real option \<Rightarrow> ClientCase" where
  "line code hours =
     \<lparr>validatedClientCaseNumber = Some code, rawClientCaseNumber = None, date = None,
      durationHours = hours\<rparr>"

definition header_with_kvk :: HeaderResult where
  "header_with_kvk =
     \<lparr>invoiceHeader' =
        \<lparr>supplierName = Some ''Acme BV'', invoiceNumber = Some ''2025-001'',
         invoiceDate = Some ''2025-03-14'', kvkNumber = Some ''84726180'',
         vatNumber = None\<rparr>,
      isCoachingInvoice' = True\<rparr>"

definition header_from_ocr :: HeaderResult where
  "header_from_ocr =
     \<lparr>invoiceHeader' =
        \<lparr>supplierName = Some ''Acme BV'', invoiceNumber = Some ''2025-001'',
         invoiceDate = Some ''2025-03-14'', kvkNumber = Some ''34726180'',
         vatNumber = Some ''NL863334647B01''\<rparr>,
      isCoachingInvoice' = True\<rparr>"

definition no_header_fields :: "string \<Rightarrow> header_fields" where
  "no_header_fields text =
     \<lparr>regex_kvkNumber = None, regex_vatNumber = None, regex_invoiceNumber = None\<rparr>"

definition always :: "'r \<Rightarrow> nat \<Rightarrow> 'r attempt" where
  "always r attempt = Returns r"

definition environment_of :: "LineItemsResult \<Rightarrow> environment" where
  "environment_of lines =
     \<lparr>header_agent = always header_with_kvk, lines_agent = always lines,
      ocr_header_agent = always header_from_ocr, pdf_exists = True,
      run_pdf_ocr_google = ''KvK 3472 6180 BTW NL863334647B01'',
      extract_header_fields = no_header_fields\<rparr>"

definition lines_negative :: LineItemsResult where
  "lines_negative =
     \<lparr>clientCases = [line ''JN16-I21-284'' (Some (- 1))], clientCasesNoActivity = []\<rparr>"

definition lines_mixed :: LineItemsResult where
  "lines_mixed =
     \<lparr>clientCases =
        [line ''JN16-121-284'' (Some (3 / 2)), line ''XX99-X99-999'' (Some 2),
         line ''JN16-I21-285'' (Some 0), line [] None],
      clientCasesNoActivity = [''ZZ11-Z11-111'']\<rparr>"




section \<open>Canonical form of a client case number\<close>









declare fix_positions.simps [simp del]








section \<open>The matcher\<close>

lemma match_ambiguous:
  "match_status (match m code) = Ambiguous_io_swap \<Longrightarrow> contamination (match m code) = Cont_none"
  by (auto simp: match_def Let_def split: if_splits list.splits option.splits)

lemma match_fuzzy:
  "match_status (match m code) = Fuzzy_io_swap \<Longrightarrow>
     \<exists>matched. index_by_canon m (canonical_case_number (strip code)) = Some [matched]
       \<and> matched_code (match m code) = Some matched
       \<and> contamination (match m code) = contamination_flag matched"
  by (auto simp: match_def Let_def split: if_splits list.splits option.splits)

text \<open>
  Claim C9. When the result of \<open>match\<close> has the status \<open>ambiguous_io_swap\<close>, its
  contamination is the constant \<open>none\<close>, whatever glyphs the original code holds; when
  the status is \<open>fuzzy_io_swap\<close>, the contamination is that of the matched registry
  code, the only entry of the canonical form, and not that of the original code.
\<close>

theorem match_contamination:
  "(match_status (match m code) = Ambiguous_io_swap \<longrightarrow>
      contamination (match m code) = Cont_none)
   \<and> (match_status (match m code) = Fuzzy_io_swap \<longrightarrow>
        (\<exists>matched. index_by_canon m (canonical_case_number (strip code)) = Some [matched]
           \<and> matched_code (match m code) = Some matched
           \<and> contamination (match m code) = contamination_flag matched))"
  using match_ambiguous match_fuzzy by blast

theorem match_contamination_witness:
  "contamination (match (matcher_of registry_twins) ''I012-A34-567'') = Cont_none
   \<and> contamination_flag ''I012-A34-567'' = I_only
   \<and> contamination (match (matcher_of registry_s1) ''JN16-121-284'') = contamination_flag ''JN16-I21-284''
   \<and> contamination_flag ''JN16-121-284'' = Cont_none
   \<and> contamination_flag ''JN16-I21-284'' = I_only"
proof -
  have a: "match_status (match (matcher_of registry_twins) ''I012-A34-567'') = Ambiguous_io_swap"
    by code_simp
  have f: "match_status (match (matcher_of registry_s1) ''JN16-121-284'') = Fuzzy_io_swap"
    by code_simp
  have m: "matched_code (match (matcher_of registry_s1) ''JN16-121-284'') = Some ''JN16-I21-284''"
    by code_simp
  from match_contamination [of "matcher_of registry_twins" "''I012-A34-567''"] a
  have 1: "contamination (match (matcher_of registry_twins) ''I012-A34-567'') = Cont_none"
    by blast
  from match_contamination [of "matcher_of registry_s1" "''JN16-121-284''"] f
  obtain matched where
    "matched_code (match (matcher_of registry_s1) ''JN16-121-284'') = Some matched"
    "contamination (match (matcher_of registry_s1) ''JN16-121-284'') = contamination_flag matched"
    by blast
  with m have 2: "contamination (match (matcher_of registry_s1) ''JN16-121-284'')
      = contamination_flag ''JN16-I21-284''"
    by simp
  have 3: "contamination_flag ''I012-A34-567'' = I_only" by code_simp
  have 4: "contamination_flag ''JN16-121-284'' = Cont_none" by code_simp
  have 5: "contamination_flag ''JN16-I21-284'' = I_only" by code_simp
  from 1 2 3 4 5 show ?thesis by blast
qed

section \<open>The verdict of the pre-processor\<close>

lemma fold_count:
  "fold (\<lambda>(code, info) cnt. cnt(matchStatus info := Suc (cnt (matchStatus info)))) ms c0 st
     = c0 st + length (filter (\<lambda>(code, info). matchStatus info = st) ms)"
  by (induction ms arbitrary: c0) (auto split: prod.splits)

lemma count_statuses_length:
  "count_statuses ms st = length (filter (\<lambda>(code, info). matchStatus info = st) ms)"
  by (simp add: count_statuses_def fold_count)

lemma count_statuses_pos:
  "(0 < count_statuses ms st) = (\<exists>(code, info) \<in> set ms. matchStatus info = st)"
  by (auto simp: count_statuses_length filter_empty_conv)

lemma evaluate_verdict_rule:
  "verdict (evaluate_client_case_verdict d) = verdict_rule (matches_of d)"
  unfolding evaluate_client_case_verdict_def matches_of_def [symmetric] Let_def verdict_rule_def
  by (auto simp add: count_statuses_pos)

text \<open>
  Claim C3. The verdict follows the ordered rule: no CCN match gives reject; otherwise
  a match that is unknown or ambiguous gives reject; otherwise a fuzzy match gives
  needs\_review; otherwise the verdict is accept. This holds of the verdict function on
  any invoice data and of the verdict that the pre-processor records for an invoice.
\<close>

theorem preprocessed_verdict_rule:
  "verdict (evaluate_client_case_verdict d) = verdict_rule (matches_of d)
   \<and> client_case_summary (extractor_process_invoice matcher find_client_cases text)
       = Some (evaluate_client_case_verdict (annotate_client_cases matcher
           \<lparr>extracted_text = text,
            client_case_numbers = (if text = [] then [] else find_client_cases text),
            text_length = length text, is_coaching_invoice = False,
            client_case_matches = None, client_case_summary = None\<rparr>))
   \<and> manifest_verdict (extractor_process_invoice matcher find_client_cases text)
       = verdict_rule (matches_of (extractor_process_invoice matcher find_client_cases text))"
  by (simp add: extractor_process_invoice_def Let_def evaluate_verdict_rule manifest_verdict_def
      matches_of_def)

theorem preprocessed_verdict_rule_witness:
  "manifest_verdict
     (extractor_process_invoice (Some (matcher_of registry_s1)) find_one_code ''Uren JN16-121-284'')
   = Needs_review"
proof -
  have "verdict_rule (matches_of
      (extractor_process_invoice (Some (matcher_of registry_s1)) find_one_code ''Uren JN16-121-284''))
    = Needs_review"
    by code_simp
  with preprocessed_verdict_rule
    [of _ "Some (matcher_of registry_s1)" find_one_code "''Uren JN16-121-284''"]
  show ?thesis by simp
qed



section \<open>Line items and the allow-list\<close>

lemma drain_fold:
  "fold (\<lambda>c (active, no_activity).
           if durationHours c = None \<or> durationHours c = Some 0 then
             (case validatedClientCaseNumber c of
                None \<Rightarrow> (active, no_activity)
              | Some code \<Rightarrow>
                  if code \<noteq> [] then (active, insert code no_activity)
                  else (active, no_activity))
           else (active @ [c], no_activity))
      cs (a, n)
   = (a @ filter (\<lambda>c. \<not> no_hours c) cs, n \<union> drained_codes cs)"
proof (induction cs arbitrary: a n)
  case Nil
  show ?case by (simp add: drained_codes_def)
next
  case (Cons c cs)
  have d: "drained_codes (c # cs) =
      (if no_hours c then (case validatedClientCaseNumber c of None \<Rightarrow> {}
          | Some code \<Rightarrow> if code \<noteq> [] then {code} else {}) else {}) \<union> drained_codes cs"
    by (auto simp: drained_codes_def split: option.splits)
  show ?case
    by (simp add: Cons.IH d no_hours_def split: option.splits)
qed

lemma finite_drained_codes: "finite (drained_codes cs)"
proof -
  have "drained_codes cs \<subseteq> (\<lambda>c. case validatedClientCaseNumber c of None \<Rightarrow> [] | Some code \<Rightarrow> code) ` set cs"
    by (force simp: drained_codes_def)
  then show ?thesis by (rule finite_subset) simp
qed

lemma post_process_eq:
  "post_process_line_items r =
     r\<lparr>clientCases := filter (\<lambda>c. \<not> no_hours c) (clientCases r),
       clientCasesNoActivity :=
         sorted_set (set (clientCasesNoActivity r) \<union> drained_codes (clientCases r))\<rparr>"
  by (simp add: post_process_line_items_def drain_fold)

lemma post_process_clientCases:
  "clientCases (post_process_line_items r) = filter (\<lambda>c. \<not> no_hours c) (clientCases r)"
  by (simp add: post_process_line_items_def drain_fold)

lemma post_process_no_activity:
  "clientCasesNoActivity (post_process_line_items r)
     = sorted_set (set (clientCasesNoActivity r) \<union> drained_codes (clientCases r))"
  by (simp add: post_process_line_items_def drain_fold)

lemma set_sorted_set: "finite A \<Longrightarrow> set (sorted_set A) = A"
  by (simp add: sorted_set_def)

lemma post_process_no_activity_set:
  "set (clientCasesNoActivity (post_process_line_items r))
     = set (clientCasesNoActivity r) \<union> drained_codes (clientCases r)"
  by (simp add: post_process_no_activity set_sorted_set finite_drained_codes)

lemma no_hours_correct_case: "no_hours (correct_case cm c) = no_hours c"
  by (simp add: correct_case_def no_hours_def split: option.splits)

lemma clientCases_corrected:
  "\<forall>c \<in> set (clientCases (corrected_result env d)). \<not> no_hours c"
  by (auto simp: corrected_result_def Let_def apply_client_case_corrections_def
      post_process_clientCases no_hours_correct_case split: option.splits)

lemma clientCases_enforce:
  "clientCases (enforce_allowed_client_cases r allowed)
     = filter (\<lambda>c. in_allowed allowed (validatedClientCaseNumber c)) (clientCases r)"
  by (simp add: enforce_allowed_client_cases_def)

lemma no_activity_enforce:
  "set (clientCasesNoActivity (enforce_allowed_client_cases r allowed))
     = set (clientCasesNoActivity r) \<inter> set allowed"
  by (auto simp: enforce_allowed_client_cases_def set_sorted_set)

text \<open>
  Claim C4, as amended. Post-processing keeps in \<open>clientCases\<close> exactly the lines whose
  \<open>durationHours\<close> is neither null nor 0, in their order, whatever the sign of the
  hours; the codes of \<open>clientCasesNoActivity\<close> are the ones it held together with the
  validated codes, when not empty, of the lines without hours; and no active entry of
  a final record has \<open>durationHours\<close> null or 0.
\<close>

theorem zero_hours_drain:
  "clientCases (post_process_line_items r) = filter (\<lambda>c. \<not> no_hours c) (clientCases r)
   \<and> set (clientCasesNoActivity (post_process_line_items r))
       = set (clientCasesNoActivity r) \<union> drained_codes (clientCases r)
   \<and> (\<forall>c \<in> set (clientCases (orchestrator_process_invoice env d)). \<not> no_hours c)"
  using clientCases_corrected [of env d]
  by (simp add: post_process_clientCases post_process_no_activity_set
      orchestrator_process_invoice_def clientCases_enforce)

theorem zero_hours_drain_witness:
  "clientCases (post_process_line_items lines_mixed)
     = [line ''JN16-121-284'' (Some (3 / 2)), line ''XX99-X99-999'' (Some 2)]
   \<and> clientCasesNoActivity (post_process_line_items lines_mixed)
     = [''JN16-I21-285'', ''ZZ11-Z11-111'']
   \<and> map durationHours (clientCases (orchestrator_process_invoice (environment_of lines_mixed) context_s1))
     = [Some (3 / 2)]"
proof -
  note t = zero_hours_drain [of lines_mixed "environment_of lines_mixed" context_s1]
  have "filter (\<lambda>c. \<not> no_hours c) (clientCases lines_mixed)
      = [line ''JN16-121-284'' (Some (3 / 2)), line ''XX99-X99-999'' (Some 2)]"
    by code_simp
  with t have 1: "clientCases (post_process_line_items lines_mixed)
      = [line ''JN16-121-284'' (Some (3 / 2)), line ''XX99-X99-999'' (Some 2)]"
    by simp
  have 2: "clientCasesNoActivity (post_process_line_items lines_mixed)
      = [''JN16-I21-285'', ''ZZ11-Z11-111'']"
    by code_simp
  have 3: "map durationHours (clientCases (orchestrator_process_invoice (environment_of lines_mixed) context_s1))
      = [Some (3 / 2)]"
    by code_simp
  from 1 2 3 show ?thesis by blast
qed

text \<open>
  The claim as stated fails: a line of minus one hour stays active, after
  post-processing and in the final record; and a line without hours whose validated
  code is empty reaches neither list.
\<close>

theorem negative_hours_stay_active:
  "map durationHours (clientCases (post_process_line_items lines_negative)) = [Some (- 1)]
   \<and> map durationHours
        (clientCases (orchestrator_process_invoice (environment_of lines_negative) context_s1))
      = [Some (- 1)]
   \<and> \<not> (0 :: real) < - 1
   \<and> clientCasesNoActivity
        (post_process_line_items \<lparr>clientCases = [line [] None], clientCasesNoActivity = []\<rparr>)
      = []"
  by code_simp

text \<open>
  Claim C1. In the final record of an orchestrated invoice every active entry has its
  validated code in \<open>allowed_cases_valid\<close>, and so has every member of
  \<open>clientCasesNoActivity\<close>; the two lists are those of the record after the correction
  map, without the entries whose code is not in \<open>allowed_cases_valid\<close>.
\<close>

theorem final_record_allowed:
  "(\<forall>c \<in> set (clientCases (orchestrator_process_invoice env d)).
      \<exists>code. validatedClientCaseNumber c = Some code \<and> code \<in> set (valid_allowed_cases d))
   \<and> (\<forall>code \<in> set (clientCasesNoActivity (orchestrator_process_invoice env d)).
        code \<in> set (valid_allowed_cases d))
   \<and> clientCases (orchestrator_process_invoice env d)
       = filter (\<lambda>c. in_allowed (valid_allowed_cases d) (validatedClientCaseNumber c))
           (clientCases (corrected_result env d))
   \<and> set (clientCasesNoActivity (orchestrator_process_invoice env d))
       = set (clientCasesNoActivity (corrected_result env d)) \<inter> set (valid_allowed_cases d)"
  by (auto simp: orchestrator_process_invoice_def clientCases_enforce no_activity_enforce
      in_allowed_def split: option.splits)

theorem final_record_allowed_witness:
  "map validatedClientCaseNumber (clientCases (corrected_result (environment_of lines_mixed) context_s1))
     = [Some ''JN16-I21-284'', Some ''XX99-X99-999'']
   \<and> clientCasesNoActivity (corrected_result (environment_of lines_mixed) context_s1)
     = [''JN16-I21-285'', ''ZZ11-Z11-111'']
   \<and> map validatedClientCaseNumber (clientCases (orchestrator_process_invoice (environment_of lines_mixed) context_s1))
     = [Some ''JN16-I21-284'']
   \<and> set (clientCasesNoActivity (orchestrator_process_invoice (environment_of lines_mixed) context_s1))
     = {''JN16-I21-285''}"
proof -
  note t = final_record_allowed [of "environment_of lines_mixed" context_s1]
  have 1: "map validatedClientCaseNumber (clientCases (corrected_result (environment_of lines_mixed) context_s1))
     = [Some ''JN16-I21-284'', Some ''XX99-X99-999'']"
    by code_simp
  have 2: "clientCasesNoActivity (corrected_result (environment_of lines_mixed) context_s1)
     = [''JN16-I21-285'', ''ZZ11-Z11-111'']"
    by code_simp
  have 3: "map validatedClientCaseNumber (clientCases (orchestrator_process_invoice (environment_of lines_mixed) context_s1))
     = [Some ''JN16-I21-284'']"
    by code_simp
  have a: "valid_allowed_cases context_s1 = [''JN16-I21-284'', ''JN16-I21-285'']"
    by code_simp
  from t have "set (clientCasesNoActivity (orchestrator_process_invoice (environment_of lines_mixed) context_s1))
     = set (clientCasesNoActivity (corrected_result (environment_of lines_mixed) context_s1))
        \<inter> set (valid_allowed_cases context_s1)"
    by blast
  then have 4: "set (clientCasesNoActivity (orchestrator_process_invoice (environment_of lines_mixed) context_s1))
     = {''JN16-I21-285''}"
    by (simp add: 2 a)
  from 1 2 3 4 show ?thesis by blast
qed

text \<open>
  Claim C10. A line whose \<open>durationHours\<close> is null or 0 and whose validated code is
  empty or null is removed entirely: the result of post-processing is the one for the
  line items without that line, the line is not among the active entries, and the
  no-activity codes are the ones the other lines give.
\<close>

theorem empty_code_line_removed:
  assumes "no_hours c" and "\<not> truthy (validatedClientCaseNumber c)"
  shows "post_process_line_items (r\<lparr>clientCases := xs @ c # ys\<rparr>)
           = post_process_line_items (r\<lparr>clientCases := xs @ ys\<rparr>)
         \<and> c \<notin> set (clientCases (post_process_line_items (r\<lparr>clientCases := xs @ c # ys\<rparr>)))
         \<and> set (clientCasesNoActivity (post_process_line_items (r\<lparr>clientCases := xs @ c # ys\<rparr>)))
             = set (clientCasesNoActivity r) \<union> drained_codes (xs @ ys)"
proof -
  from assms have d: "drained_codes (xs @ c # ys) = drained_codes (xs @ ys)"
    by (auto simp: drained_codes_def truthy_def split: option.splits)
  have 1: "post_process_line_items (r\<lparr>clientCases := xs @ c # ys\<rparr>)
           = post_process_line_items (r\<lparr>clientCases := xs @ ys\<rparr>)"
    using assms(1) by (simp add: post_process_eq d)
  have 2: "c \<notin> set (clientCases (post_process_line_items (r\<lparr>clientCases := xs @ c # ys\<rparr>)))"
    using assms(1) by (simp add: post_process_clientCases)
  have 3: "set (clientCasesNoActivity (post_process_line_items (r\<lparr>clientCases := xs @ c # ys\<rparr>)))
             = set (clientCasesNoActivity r) \<union> drained_codes (xs @ ys)"
    by (simp add: post_process_no_activity_set d)
  from 1 2 3 show ?thesis by blast
qed

theorem empty_code_line_removed_witness:
  "post_process_line_items
     (lines_mixed\<lparr>clientCases := take 3 (clientCases lines_mixed) @ line [] None # []\<rparr>)
   = post_process_line_items (lines_mixed\<lparr>clientCases := take 3 (clientCases lines_mixed) @ []\<rparr>)
   \<and> line [] None \<notin> set (clientCases (post_process_line_items
       (lines_mixed\<lparr>clientCases := take 3 (clientCases lines_mixed) @ line [] None # []\<rparr>)))"
proof -
  have 1: "no_hours (line [] None)" by (simp add: no_hours_def line_def)
  have 2: "\<not> truthy (validatedClientCaseNumber (line [] None))"
    by (simp add: truthy_def line_def)
  from empty_code_line_removed
    [OF 1 2, where r = lines_mixed and xs = "take 3 (clientCases lines_mixed)" and ys = "[]"]
  show ?thesis by blast
qed

section \<open>The retry wrapper\<close>

declare run_agent_loop.simps [simp del]









section \<open>Amounts\<close>

















section \<open>Tier 2 of the self-correction\<close>

lemma tier2_frame:
  "supplierName (tier2 agent h) = supplierName h
   \<and> invoiceNumber (tier2 agent h) = invoiceNumber h
   \<and> invoiceDate (tier2 agent h) = invoiceDate h"
  by (simp add: tier2_def Let_def split: option.splits)


end
